theory Spec2Isabelle
  imports Complex_Main
begin

section \<open>Smart Study Planner: the deterministic timetable partitioner and its callers\<close>

text \<open>
  A shallow embedding of \<^verbatim>\<open>create_timetable_direct\<close>, \<^verbatim>\<open>run_timetable_planner\<close> and
  \<^verbatim>\<open>run_question_generation_agent\<close> (agents.py) and of the scoring part of
  \<^verbatim>\<open>display_enhanced_quiz_results\<close> (fileapp.py).

  Python values are modelled as follows: \<^verbatim>\<open>int\<close> as \<^typ>\<open>int\<close>, \<^verbatim>\<open>str\<close> as
  \<^typ>\<open>string\<close>, a \<^verbatim>\<open>dict\<close> whose iteration order matters as an association list in
  insertion order, a raised exception as the left summand of a sum type.
\<close>

subsection \<open>Exceptions\<close>

text \<open>
  The exception classes the modelled code can meet. \<^verbatim>\<open>json.JSONDecodeError\<close> is the
  class named by the inner handlers of the wrappers; \<^verbatim>\<open>RecursionError\<close> is what the
  JSON scanner raises on a text nested too deeply; \<open>OtherException\<close> stands for any
  other subclass of \<^verbatim>\<open>Exception\<close> (a provider error, ...); \<open>NonException\<close> stands
  for a \<^verbatim>\<open>BaseException\<close> that is not an \<^verbatim>\<open>Exception\<close> (\<^verbatim>\<open>KeyboardInterrupt\<close>,
  \<^verbatim>\<open>SystemExit\<close>), which \<^verbatim>\<open>except Exception\<close> does not catch.
\<close>

datatype py_exception =
  ValueError | ZeroDivisionError | JSONDecodeError | RecursionError | OtherException
  | NonException

fun is_Exception :: "py_exception \<Rightarrow> bool" where
  "is_Exception NonException = False"
| "is_Exception _ = True"

subsection \<open>Python primitives used by the partitioner\<close>

text \<open>\<^verbatim>\<open>a // b\<close> on ints: floor division, \<^verbatim>\<open>ZeroDivisionError\<close> when \<^verbatim>\<open>b == 0\<close>.\<close>

definition py_floordiv :: "int \<Rightarrow> int \<Rightarrow> py_exception + int" where
  "py_floordiv a b = (if b = 0 then Inl ZeroDivisionError else Inr (a div b))"

text \<open>\<^verbatim>\<open>range(n)\<close>: the ints \<open>0, ..., n - 1\<close>, empty when \<open>n \<le> 0\<close>.\<close>

definition py_range :: "int \<Rightarrow> int list" where
  "py_range n = map int [0..<nat n]"

text \<open>
  \<^verbatim>\<open>xs[start:end]\<close>: a negative bound counts from the end, every bound is clamped to
  \<open>0..len(xs)\<close>, and the slice is empty when the start is not before the end. Slicing
  never raises.
\<close>

definition slice_index :: "'a list \<Rightarrow> int \<Rightarrow> nat" where
  "slice_index xs i =
     (if i < 0 then nat (max 0 (int (length xs) + i)) else min (nat i) (length xs))"

definition py_slice :: "'a list \<Rightarrow> int \<Rightarrow> int \<Rightarrow> 'a list" where
  "py_slice xs start_idx end_idx =
     drop (slice_index xs start_idx) (take (slice_index xs end_idx) xs)"

text \<open>
  \<^verbatim>\<open>str.lower()\<close>, on the ASCII letters. Characters outside \<open>A..Z\<close> are left as they
  are; no character outside ASCII lowercases to one of the letters of \<^verbatim>\<open>"essay"\<close>, so
  the comparison of line 180 is not affected.
\<close>

definition lower_char :: "char \<Rightarrow> char" where
  "lower_char c =
     (let n = (of_char c :: nat)
      in if of_char CHR ''A'' \<le> n \<and> n \<le> of_char CHR ''Z'' then char_of (n + 32) else c)"

definition lower :: "string \<Rightarrow> string" where
  "lower s = map lower_char s"

subsection \<open>Dates\<close>

text \<open>
  A naive \<^verbatim>\<open>datetime\<close> is modelled as its number of microseconds on the proleptic
  Gregorian time line, a \<^verbatim>\<open>timedelta\<close> as a difference of two of them. Python
  normalises a \<^verbatim>\<open>timedelta\<close> so that \<^verbatim>\<open>0 <= seconds < 86400\<close>, hence \<^verbatim>\<open>.days\<close> is
  the floor of the difference in days (negative for a date in the past).
\<close>

type_synonym datetime = int

definition usec_per_day :: int where
  "usec_per_day = 86400000000"

definition timedelta_days :: "int \<Rightarrow> int" where
  "timedelta_days delta = delta div usec_per_day"

subsection \<open>Data model\<close>

text \<open>
  The syllabus \<^verbatim>\<open>dict\<close> (subject to list of topics), in insertion order, which is the
  order \<^verbatim>\<open>syllabus.items()\<close> iterates in.
\<close>

type_synonym syllabus = "(string \<times> string list) list"

text \<open>The dict \<^verbatim>\<open>{"subject": ..., "topic": ..., "suggested_hours": ...}\<close>.\<close>

record topic_assignment =
  subject :: string
  topic :: string
  suggested_hours :: int

text \<open>
  The \<^verbatim>\<open>"topics"\<close> value of a plan entry is a list of assignments on a study day and
  a string on a revision day.
\<close>

datatype topics_value = TopicList "topic_assignment list" | TopicStr string

text \<open>The dict \<^verbatim>\<open>{"day": ..., "type": ..., "topics": ...}\<close>.\<close>

record day_entry =
  day :: int
  type :: string
  topics :: topics_value

subsection \<open>create\_timetable\_direct (agents.py, lines 160--187)\<close>

text \<open>Line 165: the flattened list of (subject, topic) pairs.\<close>

definition topic_list_of :: "syllabus \<Rightarrow> (string \<times> string) list" where
  "topic_list_of syllabus =
     concat (map (\<lambda>(subject, topics). map (\<lambda>topic. (subject, topic)) topics) syllabus)"

text \<open>Lines 176--183: the list comprehension building \<^verbatim>\<open>detailed_topics\<close>.\<close>

definition detailed_topics_of :: "(string \<times> string) list \<Rightarrow> topic_assignment list" where
  "detailed_topics_of day_plan =
     map (\<lambda>(subject, topic).
            \<lparr>subject = subject, topic = topic,
             suggested_hours = (if lower subject \<noteq> ''essay'' then 2 else 1)\<rparr>) day_plan"

text \<open>
  Lines 171--184: the first loop, over the indices still to visit, with \<^verbatim>\<open>plan\<close> as
  the accumulator. An empty \<^verbatim>\<open>day_plan\<close> is falsy and appends nothing.
\<close>

fun study_loop ::
  "(string \<times> string) list \<Rightarrow> int \<Rightarrow> int \<Rightarrow> int list \<Rightarrow> day_entry list \<Rightarrow> day_entry list"
where
  "study_loop topic_list topics_per_day total_topics [] plan = plan"
| "study_loop topic_list topics_per_day total_topics (i # rest) plan =
     (let start_idx = i * topics_per_day;
          end_idx = min ((i + 1) * topics_per_day) total_topics;
          day_plan = py_slice topic_list start_idx end_idx
      in study_loop topic_list topics_per_day total_topics rest
           (if day_plan \<noteq> []
            then plan @ [\<lparr>day = i + 1, type = ''study'',
                          topics = TopicList (detailed_topics_of day_plan)\<rparr>]
            else plan))"

text \<open>Lines 185--186: the second loop.\<close>

fun revision_loop :: "int \<Rightarrow> int list \<Rightarrow> day_entry list \<Rightarrow> day_entry list" where
  "revision_loop study_days [] plan = plan"
| "revision_loop study_days (j # rest) plan =
     revision_loop study_days rest
       (plan @ [\<lparr>day = study_days + j + 1, type = ''revision'',
                  topics = TopicStr ''Revise all covered topics''\<rparr>])"

text \<open>
  Line 169: the conditional expression; the division is evaluated only when
  \<^verbatim>\<open>study_days > 0\<close>.
\<close>

definition topics_per_day_of :: "int \<Rightarrow> int \<Rightarrow> py_exception + int" where
  "topics_per_day_of total_topics study_days =
     (if study_days > 0
      then (case py_floordiv total_topics study_days of
              Inl e \<Rightarrow> Inl e
            | Inr q \<Rightarrow> Inr (max 1 q))
      else Inr total_topics)"

text \<open>
  Lines 164--187, from the day difference on: \<open>delta_days\<close> is
  \<^verbatim>\<open>(target - today).days\<close>.
\<close>

definition timetable_for_days :: "syllabus \<Rightarrow> int \<Rightarrow> py_exception + day_entry list" where
  "timetable_for_days syllabus delta_days =
     (let days = max 1 delta_days;
          topic_list = topic_list_of syllabus;
          total_topics = int (length topic_list)
      in case py_floordiv days 7 of
           Inl e \<Rightarrow> Inl e
         | Inr w \<Rightarrow>
             (let revision_days = max 1 w;
                  study_days = days - revision_days
              in case topics_per_day_of total_topics study_days of
                   Inl e \<Rightarrow> Inl e
                 | Inr topics_per_day \<Rightarrow>
                     Inr (revision_loop study_days (py_range revision_days)
                            (study_loop topic_list topics_per_day total_topics
                               (py_range study_days) []))))"

text \<open>
  The whole function. \<open>today\<close> is the value \<^verbatim>\<open>datetime.today()\<close> reads from the clock;
  \<open>strptime\<close> is \<^verbatim>\<open>datetime.strptime(_, "%Y-%m-%d")\<close>, a library function that
  returns a \<^verbatim>\<open>datetime\<close> or raises \<^verbatim>\<open>ValueError\<close>.
\<close>

definition create_timetable_direct ::
  "datetime \<Rightarrow> (string \<Rightarrow> py_exception + datetime) \<Rightarrow> syllabus \<Rightarrow> string
     \<Rightarrow> py_exception + day_entry list"
where
  "create_timetable_direct today strptime syllabus end_date =
     (case strptime end_date of
        Inl e \<Rightarrow> Inl e
      | Inr target \<Rightarrow> timetable_for_days syllabus (timedelta_days (target - today)))"

subsection \<open>The wrappers run\_timetable\_planner and run\_question\_generation\_agent (agents.py, lines 203--238)\<close>

text \<open>
  What \<^verbatim>\<open>agent.run\<close> or the \<^verbatim>\<open>generate_questions\<close> tool hands back: a \<^verbatim>\<open>str\<close>, or
  a value of another type (the wrappers test \<^verbatim>\<open>isinstance(result, str)\<close>).
\<close>

datatype 'v agent_output = OutStr string | OutOther 'v

text \<open>
  What a wrapper returns: the parsed JSON value, the raw text, a non-string result as
  it is, the empty list \<^verbatim>\<open>[]\<close>, or \<^verbatim>\<open>None\<close>.
\<close>

datatype ('j, 'v) wrapper_value = Parsed 'j | Raw string | NonStr 'v | EmptyList | PyNone

text \<open>
  \<^verbatim>\<open>try: body  except C: handler\<close>, for a handler that returns a value: an exception
  of the body that the clause matches is replaced by the handler's result, any other
  exception propagates. The handlers' \<^verbatim>\<open>print\<close> calls write to standard output only
  and are left out.
\<close>

definition try_except ::
  "(py_exception + 'a) \<Rightarrow> (py_exception \<Rightarrow> bool) \<Rightarrow> (py_exception + 'a) \<Rightarrow> py_exception + 'a"
where
  "try_except body handles handler =
     (case body of
        Inr v \<Rightarrow> Inr v
      | Inl e \<Rightarrow> if handles e then handler else Inl e)"

text \<open>Line 208: the f-string passed to \<^verbatim>\<open>agent.run\<close>.\<close>

definition timetable_prompt :: "string \<Rightarrow> string \<Rightarrow> string" where
  "timetable_prompt syllabus_json end_date =
     ''Create a detailed timetable for syllabus: '' @ syllabus_json @ '' with end date: ''
       @ end_date @ ''. Include subtopics and suggested hours.''"

text \<open>
  Lines 203--217. The external collaborators are parameters: the outcome of
  \<^verbatim>\<open>get_timetable_planner_agent()\<close> (an agent, given by its \<^verbatim>\<open>run\<close> method, or an
  exception), \<^verbatim>\<open>json.dumps\<close> and \<^verbatim>\<open>json.loads\<close>.
\<close>

definition run_timetable_planner ::
  "(py_exception + (string \<Rightarrow> py_exception + 'v agent_output)) \<Rightarrow>
   (syllabus \<Rightarrow> py_exception + string) \<Rightarrow> (string \<Rightarrow> py_exception + 'j) \<Rightarrow>
   syllabus \<Rightarrow> string \<Rightarrow> py_exception + ('j, 'v) wrapper_value"
where
  "run_timetable_planner get_timetable_planner_agent json_dumps json_loads syllabus end_date =
     try_except
       (case get_timetable_planner_agent of
          Inl e \<Rightarrow> Inl e
        | Inr agent_run \<Rightarrow>
            (case json_dumps syllabus of
               Inl e \<Rightarrow> Inl e
             | Inr syllabus_json \<Rightarrow>
                 (case agent_run (timetable_prompt syllabus_json end_date) of
                    Inl e \<Rightarrow> Inl e
                  | Inr (OutStr result) \<Rightarrow>
                      try_except
                        (case json_loads result of Inl e \<Rightarrow> Inl e | Inr j \<Rightarrow> Inr (Parsed j))
                        (\<lambda>e. e = JSONDecodeError)
                        (Inr (Raw result))
                  | Inr (OutOther v) \<Rightarrow> Inr (NonStr v))))
       is_Exception
       (Inr EmptyList)"

text \<open>
  Lines 219--238. \<open>generate_questions\<close> is the tool call of line 223, given by its
  outcome for an exam name and a number of questions.
\<close>

definition run_question_generation_agent ::
  "(string \<Rightarrow> int \<Rightarrow> py_exception + 'v agent_output) \<Rightarrow> (string \<Rightarrow> py_exception + 'j) \<Rightarrow>
   string \<Rightarrow> int \<Rightarrow> py_exception + ('j, 'v) wrapper_value"
where
  "run_question_generation_agent generate_questions json_loads exam_name num_questions =
     try_except
       (case generate_questions exam_name num_questions of
          Inl e \<Rightarrow> Inl e
        | Inr (OutStr result) \<Rightarrow>
            try_except
              (case json_loads result of Inl e \<Rightarrow> Inl e | Inr j \<Rightarrow> Inr (Parsed j))
              (\<lambda>e. e = JSONDecodeError)
              (Inr PyNone)
        | Inr (OutOther v) \<Rightarrow> Inr (NonStr v))
       is_Exception
       (Inr PyNone)"

subsection \<open>Python floats\<close>

text \<open>
  A finite \<^verbatim>\<open>float\<close> is modelled as the rational number it denotes, and an
  operation as the exact result rounded to the nearest binary64 value, ties to even:
  53 significant bits, the unit in the last place never below \<open>2 to the power -1074\<close>.
  Overflow is not modelled; the scoring code only forms a ratio in \<open>[0, 1]\<close> and its
  product with 100.
\<close>

fun bit_length :: "nat \<Rightarrow> nat" where
  "bit_length n = (if n = 0 then 0 else Suc (bit_length (n div 2)))"

declare bit_length.simps [simp del]

text \<open>\<open>\<lfloor>log\<^sub>2 x\<rfloor>\<close> for a positive rational \<open>x\<close>.\<close>

definition floor_log2 :: "rat \<Rightarrow> int" where
  "floor_log2 x =
     (if 1 \<le> x then int (bit_length (nat \<lfloor>x\<rfloor>)) - 1
      else - int (bit_length (nat (\<lceil>1 / x\<rceil> - 1))))"

definition pow2 :: "int \<Rightarrow> rat" where
  "pow2 e = (if 0 \<le> e then 2 ^ nat e else 1 / 2 ^ nat (- e))"

definition round_half_even :: "rat \<Rightarrow> int" where
  "round_half_even x =
     (let f = \<lfloor>x\<rfloor>; r = x - of_int f
      in if r < 1 / 2 then f else if 1 / 2 < r then f + 1
         else if even f then f else f + 1)"

definition round_double :: "rat \<Rightarrow> rat" where
  "round_double x =
     (if x = 0 then 0
      else let e = max (floor_log2 \<bar>x\<bar> - 52) (- 1074)
           in of_int (round_half_even (x / pow2 e)) * pow2 e)"

text \<open>
  \<^verbatim>\<open>a / b\<close> on ints: the correctly rounded quotient, \<^verbatim>\<open>ZeroDivisionError\<close> when
  \<^verbatim>\<open>b == 0\<close>.
\<close>

definition py_truediv :: "int \<Rightarrow> int \<Rightarrow> py_exception + rat" where
  "py_truediv a b =
     (if b = 0 then Inl ZeroDivisionError else Inr (round_double (of_int a / of_int b)))"

text \<open>\<^verbatim>\<open>x * y\<close> on floats.\<close>

definition float_mul :: "rat \<Rightarrow> rat \<Rightarrow> rat" where
  "float_mul x y = round_double (x * y)"

subsection \<open>Quiz scoring: display\_enhanced\_quiz\_results (fileapp.py, lines 271--310)\<close>

text \<open>
  A question dict. A key that may be absent is an \<open>option\<close>; the fields stand for
  the keys \<^verbatim>\<open>question\<close>, \<^verbatim>\<open>options\<close>, \<^verbatim>\<open>answer\<close> and \<^verbatim>\<open>topic\<close> (prefixed, since
  \<open>topic\<close> is a field of an assignment already).
\<close>

record question =
  q_text :: "string option"
  q_options :: "string list"
  q_answer :: "string option"
  q_topic :: "string option"

text \<open>\<^verbatim>\<open>str(n)\<close> for a natural number, as the f-strings of lines 286 and 293 format it.\<close>

definition digit_char :: "nat \<Rightarrow> char" where
  "digit_char d = char_of (of_char CHR ''0'' + d)"

fun str_nat :: "nat \<Rightarrow> string" where
  "str_nat n = (if n < 10 then [digit_char n] else str_nat (n div 10) @ [digit_char (n mod 10)])"

declare str_nat.simps [simp del]

text \<open>\<^verbatim>\<open>d.get(k, dflt)\<close> on a dict, and on a key modelled as an optional field.\<close>

definition dict_get :: "('k \<rightharpoonup> 'v) \<Rightarrow> 'k \<Rightarrow> 'v \<Rightarrow> 'v" where
  "dict_get d k dflt = (case d k of None \<Rightarrow> dflt | Some v \<Rightarrow> v)"

definition option_get :: "'v option \<Rightarrow> 'v \<Rightarrow> 'v" where
  "option_get field dflt = (case field of None \<Rightarrow> dflt | Some v \<Rightarrow> v)"

text \<open>
  Lines 285--294: the loop over \<^verbatim>\<open>enumerate(questions)\<close>, with \<^verbatim>\<open>score\<close> and
  \<^verbatim>\<open>wrong_topics\<close> as accumulators.
\<close>

fun score_loop ::
  "(string \<rightharpoonup> string) \<Rightarrow> (nat \<times> question) list \<Rightarrow> int \<Rightarrow> string list \<Rightarrow> int \<times> string list"
where
  "score_loop user_answers [] score wrong_topics = (score, wrong_topics)"
| "score_loop user_answers ((idx, question) # rest) score wrong_topics =
     (let user_answer = dict_get user_answers (''q_'' @ str_nat idx) [];
          correct_answer = option_get (q_answer question) [];
          is_correct = (user_answer = correct_answer)
      in if is_correct
         then score_loop user_answers rest (score + 1) wrong_topics
         else score_loop user_answers rest score
                (wrong_topics @ [option_get (q_topic question) (''Question '' @ str_nat (idx + 1))]))"

text \<open>Lines 305--310: the grade shown by \<^verbatim>\<open>st.metric\<close>.\<close>

definition grade_of :: "rat \<Rightarrow> string" where
  "grade_of percentage =
     (if percentage \<ge> 80 then ''A'' else if percentage \<ge> 60 then ''B'' else ''C'')"

text \<open>What the function computes and then displays.\<close>

record quiz_result =
  score :: int
  total_questions :: int
  percentage :: rat
  grade :: string
  wrong_topics :: "string list"

text \<open>
  Lines 273--310. \<open>quiz_data\<close> is the value under the key \<^verbatim>\<open>questions\<close>, if any. The
  result is \<open>None\<close> on the early return of lines 274--276; the rendering calls are
  left out.
\<close>

definition display_enhanced_quiz_results ::
  "question list option \<Rightarrow> (string \<rightharpoonup> string) \<Rightarrow> py_exception + quiz_result option"
where
  "display_enhanced_quiz_results quiz_data user_answers =
     (let questions = option_get quiz_data []
      in if questions = [] then Inr None
         else
           (let total_questions = int (length questions);
                (score, wrong_topics) = score_loop user_answers (enumerate 0 questions) 0 []
            in case py_truediv score total_questions of
                 Inl e \<Rightarrow> Inl e
               | Inr ratio \<Rightarrow>
                   (let percentage = float_mul ratio 100
                    in Inr (Some \<lparr>score = score, total_questions = total_questions,
                                  percentage = percentage, grade = grade_of percentage,
                                  wrong_topics = wrong_topics\<rparr>))))"

section \<open>Notions used to state the properties\<close>

subsection \<open>The quantities of lines 164, 167, 168 and 169\<close>

text \<open>\<open>D\<close>, the floored day count of line 164.\<close>

definition day_count :: "datetime \<Rightarrow> datetime \<Rightarrow> int" where
  "day_count today target = max 1 (timedelta_days (target - today))"

text \<open>Line 167.\<close>

definition revision_days_of :: "int \<Rightarrow> int" where
  "revision_days_of days = max 1 (days div 7)"

text \<open>Line 168.\<close>

definition study_days_of :: "int \<Rightarrow> int" where
  "study_days_of days = days - revision_days_of days"

text \<open>Line 169, as a plain value: the guarded division never raises.\<close>

definition tpd_of :: "int \<Rightarrow> int \<Rightarrow> int" where
  "tpd_of total_topics study_days =
     (if study_days > 0 then max 1 (total_topics div study_days) else total_topics)"

subsection \<open>Observations on a plan\<close>

definition study_entries :: "day_entry list \<Rightarrow> day_entry list" where
  "study_entries plan = filter (\<lambda>e. type e = ''study'') plan"

definition revision_entries :: "day_entry list \<Rightarrow> day_entry list" where
  "revision_entries plan = filter (\<lambda>e. type e = ''revision'') plan"

fun assignments_of :: "topics_value \<Rightarrow> topic_assignment list" where
  "assignments_of (TopicList as) = as"
| "assignments_of (TopicStr s) = []"

text \<open>The (subject, topic) pairs carried by the study-day entries, in plan order.\<close>

definition scheduled_pairs :: "day_entry list \<Rightarrow> (string \<times> string) list" where
  "scheduled_pairs plan =
     concat (map (\<lambda>e. map (\<lambda>a. (subject a, topic a)) (assignments_of (topics e)))
               (study_entries plan))"

text \<open>The day indices are exactly \<open>1, ..., length plan\<close>, in this order.\<close>

definition contiguous_day_indices :: "day_entry list \<Rightarrow> bool" where
  "contiguous_day_indices plan \<longleftrightarrow> map day plan = map int [1..<Suc (length plan)]"

text \<open>
  A character is a given letter up to case: it has the letter's code, or that code
  less 32.
\<close>

definition same_letter :: "char \<Rightarrow> char \<Rightarrow> bool" where
  "same_letter c l \<longleftrightarrow> (of_char c :: nat) = of_char l \<or> (of_char c :: nat) + 32 = of_char l"

subsection \<open>Closed form of the two iterations\<close>

text \<open>What one iteration of the first loop appends: one entry or nothing.\<close>

definition study_entry_at :: "(string \<times> string) list \<Rightarrow> int \<Rightarrow> int \<Rightarrow> int \<Rightarrow> day_entry list" where
  "study_entry_at topic_list topics_per_day total_topics i =
     (let day_plan = py_slice topic_list (i * topics_per_day)
                       (min ((i + 1) * topics_per_day) total_topics)
      in if day_plan \<noteq> []
         then [\<lparr>day = i + 1, type = ''study'', topics = TopicList (detailed_topics_of day_plan)\<rparr>]
         else [])"

text \<open>What iteration \<open>j\<close> of the second loop appends.\<close>

definition revision_entry_at :: "int \<Rightarrow> int \<Rightarrow> day_entry" where
  "revision_entry_at study_days j =
     \<lparr>day = study_days + j + 1, type = ''revision'', topics = TopicStr ''Revise all covered topics''\<rparr>"

text \<open>
  The study-day entry of window \<open>n\<close> for a window size \<open>t\<close>, and the number of
  non-empty windows among the first \<open>sd\<close>.
\<close>

definition study_entry_of :: "(string \<times> string) list \<Rightarrow> nat \<Rightarrow> nat \<Rightarrow> day_entry" where
  "study_entry_of tls t n =
     \<lparr>day = int n + 1, type = ''study'',
      topics = TopicList (detailed_topics_of (take t (drop (n * t) tls)))\<rparr>"

definition emitted :: "(string \<times> string) list \<Rightarrow> nat \<Rightarrow> nat \<Rightarrow> nat" where
  "emitted tls t sd = length (filter (\<lambda>n. n * t < length tls) [0..<sd])"

text \<open>
  The plan in closed form; \<open>create_timetable_direct_plan_of\<close> below proves that the
  code computes it.
\<close>

definition plan_of :: "syllabus \<Rightarrow> int \<Rightarrow> day_entry list" where
  "plan_of syllabus days =
     (let tls = topic_list_of syllabus;
          sd = study_days_of days;
          t = nat (tpd_of (int (length tls)) sd)
      in map (study_entry_of tls t) [0..<emitted tls t (nat sd)]
         @ map (revision_entry_at sd) (py_range (revision_days_of days)))"

subsection \<open>Observations on a quiz\<close>

text \<open>The user's answer to question \<open>idx\<close> equals the question's \<^verbatim>\<open>answer\<close> field.\<close>

definition matches :: "(string \<rightharpoonup> string) \<Rightarrow> nat \<times> question \<Rightarrow> bool" where
  "matches user_answers iq \<longleftrightarrow>
     dict_get user_answers (''q_'' @ str_nat (fst iq)) [] = option_get (q_answer (snd iq)) []"

subsection \<open>Concrete inputs\<close>

text \<open>A \<open>strptime\<close> that parses one date string and raises on every other string.\<close>

definition fixed_strptime :: "string \<Rightarrow> datetime \<Rightarrow> string \<Rightarrow> py_exception + datetime" where
  "fixed_strptime date_string parsed s = (if s = date_string then Inr parsed else Inl ValueError)"

text \<open>A quiz of five questions and a user who answers three of them correctly.\<close>

definition example_questions :: "question list" where
  "example_questions =
     [\<lparr>q_text = Some ''What is the derivative of x^2?'', q_options = [''2x'', ''x'', ''2'', ''x^2''],
       q_answer = Some ''2x'', q_topic = Some ''Calculus''\<rparr>,
      \<lparr>q_text = Some ''What is 2 + 2?'', q_options = [''3'', ''4'', ''5'', ''6''],
       q_answer = Some ''4'', q_topic = Some ''Arithmetic''\<rparr>,
      \<lparr>q_text = Some ''What is the capital of France?'',
       q_options = [''Rome'', ''Paris'', ''Berlin'', ''Madrid''],
       q_answer = Some ''Paris'', q_topic = Some ''Geography''\<rparr>,
      \<lparr>q_text = Some ''What is the formula of water?'', q_options = [''CO2'', ''H2O'', ''O2'', ''NaCl''],
       q_answer = Some ''H2O'', q_topic = Some ''Chemistry''\<rparr>,
      \<lparr>q_text = Some ''How many days are in a week?'', q_options = [''5'', ''6'', ''7'', ''8''],
       q_answer = Some ''7'', q_topic = None\<rparr>]"

definition example_answers :: "string \<rightharpoonup> string" where
  "example_answers =
     map_of [(''q_0'', ''2x''), (''q_1'', ''4''), (''q_2'', ''Rome''), (''q_3'', ''H2O'')]"

text \<open>
  Collaborators for a run of the wrappers. The text \<open>deeply_nested\<close> is 100000
  opening brackets: it is not valid JSON, and the scanner of \<^verbatim>\<open>json.loads\<close>, which
  recurses once for each nested array, exceeds the interpreter's recursion limit on
  it and raises \<^verbatim>\<open>RecursionError\<close>. The parser below accepts two texts, raises
  \<^verbatim>\<open>RecursionError\<close> on \<open>deeply_nested\<close> and \<^verbatim>\<open>JSONDecodeError\<close> on every other
  text. The agent and the tool answer with a given reply; the failing tool raises.
\<close>

definition deeply_nested :: string where
  "deeply_nested = replicate 100000 CHR ''[''"

definition example_json_loads :: "string \<Rightarrow> py_exception + unit" where
  "example_json_loads s =
     (if s = ''[]'' \<or> s = ''{}'' then Inr ()
      else if s = deeply_nested then Inl RecursionError
      else Inl JSONDecodeError)"

definition example_agent_run :: "string \<Rightarrow> string \<Rightarrow> py_exception + unit agent_output" where
  "example_agent_run reply prompt = Inr (OutStr reply)"

definition example_json_dumps :: "syllabus \<Rightarrow> py_exception + string" where
  "example_json_dumps syllabus = (if syllabus = [] then Inr ''{}'' else Inl OtherException)"

definition example_generate_questions ::
  "string \<Rightarrow> string \<Rightarrow> int \<Rightarrow> py_exception + unit agent_output" where
  "example_generate_questions reply exam_name num_questions = Inr (OutStr reply)"

definition failing_generate_questions :: "string \<Rightarrow> int \<Rightarrow> py_exception + unit agent_output" where
  "failing_generate_questions exam_name num_questions = Inl OtherException"

text \<open>Users who answer all five questions of the example quiz correctly, and none.\<close>

definition example_answers_all :: "string \<rightharpoonup> string" where
  "example_answers_all =
     map_of [(''q_0'', ''2x''), (''q_1'', ''4''), (''q_2'', ''Paris''), (''q_3'', ''H2O''),
             (''q_4'', ''7'')]"

definition example_answers_none :: "string \<rightharpoonup> string" where
  "example_answers_none = Map.empty"

section \<open>The partitioner: auxiliary facts\<close>

lemma study_loop_closed:
  "study_loop tls tpd T is plan = plan @ concat (map (study_entry_at tls tpd T) is)"
  by (induction "is" arbitrary: plan) (simp_all add: study_entry_at_def Let_def)

lemma revision_loop_closed:
  "revision_loop sd js plan = plan @ map (revision_entry_at sd) js"
  by (induction js arbitrary: plan) (simp_all add: revision_entry_at_def)

lemma day_count_pos: "1 \<le> day_count today target"
  by (simp add: day_count_def)

lemma revision_days_pos: "1 \<le> revision_days_of d"
  by (simp add: revision_days_of_def)

lemma study_days_nonneg: "1 \<le> d \<Longrightarrow> 0 \<le> study_days_of d"
  unfolding study_days_of_def revision_days_of_def by linarith

lemma study_days_zero_iff: "1 \<le> d \<Longrightarrow> study_days_of d \<le> 0 \<longleftrightarrow> d = 1"
  unfolding study_days_of_def revision_days_of_def by (cases "d < 7") auto

lemma topics_per_day_of_Inr:
  "topics_per_day_of T sd = Inr (if sd > 0 then max 1 (T div sd) else T)"
  by (simp add: topics_per_day_of_def py_floordiv_def)

lemma timetable_for_days_closed:
  "timetable_for_days syllabus delta =
     (let days = max 1 delta; tls = topic_list_of syllabus; T = int (length tls);
          sd = study_days_of days;
          tpd = (if sd > 0 then max 1 (T div sd) else T)
      in Inr (concat (map (study_entry_at tls tpd T) (py_range sd))
              @ map (revision_entry_at sd) (py_range (revision_days_of days))))"
  by (simp add: timetable_for_days_def Let_def py_floordiv_def topics_per_day_of_Inr
      study_loop_closed revision_loop_closed study_days_of_def revision_days_of_def)

lemma py_slice_nonneg:
  "0 \<le> a \<Longrightarrow> 0 \<le> b \<Longrightarrow> py_slice xs a b = drop (nat a) (take (nat b) xs)"
  by (simp add: py_slice_def slice_index_def min_def)

lemma window_eq:
  assumes "1 \<le> tpd"
  shows "py_slice tls (int n * tpd) (min ((int n + 1) * tpd) (int (length tls)))
         = take (nat tpd) (drop (n * nat tpd) tls)"
proof -
  obtain t where t: "tpd = int t" "1 \<le> t"
    using assms by (metis nat_0_le nat_one_as_int nat_mono zero_le_one order_trans int_nat_eq)
  have a: "nat (int n * tpd) = n * t"
    by (simp add: t nat_mult_distrib)
  have b: "min ((int n + 1) * tpd) (int (length tls)) = int (min ((n + 1) * t) (length tls))"
  proof -
    have "(int n + 1) * tpd = int ((n + 1) * t)" by (simp add: t algebra_simps)
    then show ?thesis by (simp only: min_def of_nat_le_iff if_distrib [of int])
  qed
  have "py_slice tls (int n * tpd) (min ((int n + 1) * tpd) (int (length tls)))
        = drop (n * t) (take (min ((n + 1) * t) (length tls)) tls)"
    using a unfolding b by (subst py_slice_nonneg) (simp_all add: t)
  also have "\<dots> = drop (n * t) (take ((n + 1) * t) tls)"
    by (simp add: min_def)
  also have "\<dots> = take t (drop (n * t) tls)"
    by (simp add: drop_take)
  finally show ?thesis by (simp add: t)
qed

lemma study_entry_at_eq:
  assumes "1 \<le> tpd"
  shows "study_entry_at tls tpd (int (length tls)) (int n)
         = (if n * nat tpd < length tls then [study_entry_of tls (nat tpd) n] else [])"
proof -
  have "0 < nat tpd" using assms by simp
  then have "take (nat tpd) (drop (n * nat tpd) tls) \<noteq> [] \<longleftrightarrow> n * nat tpd < length tls"
    by auto
  then show ?thesis
    by (simp add: study_entry_at_def Let_def window_eq [OF assms] study_entry_of_def)
qed

lemma concat_map_if:
  "concat (map (\<lambda>x. if P x then [f x] else []) xs) = map f (filter P xs)"
  by (induction xs) simp_all

lemma filter_downward_closed:
  assumes "\<And>n. P (Suc n) \<Longrightarrow> P n"
  shows "filter P [0..<m] = [0..<length (filter P [0..<m])]"
proof (induction m)
  case 0
  show ?case by simp
next
  case (Suc m)
  show ?case
  proof (cases "P m")
    case False
    then show ?thesis using Suc by simp
  next
    case True
    have down: "P j" if "j \<le> m" for j
      using that True
    proof (induction "m - j" arbitrary: j)
      case 0
      then show ?case by simp
    next
      case (Suc d)
      then have "P (Suc j)" by simp
      then show ?case by (rule assms)
    qed
    then have "filter P [0..<m] = [0..<m]"
      by (simp add: filter_id_conv)
    then show ?thesis using True by simp
  qed
qed

lemma emitted_le: "emitted tls t sd \<le> sd"
  unfolding emitted_def by (metis length_filter_le length_upt diff_zero)

lemma study_part_eq:
  assumes "1 \<le> tpd"
  shows "concat (map (study_entry_at tls tpd (int (length tls))) (py_range sd))
         = map (study_entry_of tls (nat tpd)) [0..<emitted tls (nat tpd) (nat sd)]"
proof -
  let ?P = "\<lambda>n. n * nat tpd < length tls"
  have "concat (map (study_entry_at tls tpd (int (length tls))) (py_range sd))
        = concat (map (\<lambda>n. if ?P n then [study_entry_of tls (nat tpd) n] else []) [0..<nat sd])"
    by (simp add: py_range_def comp_def study_entry_at_eq [OF assms])
  also have "\<dots> = map (study_entry_of tls (nat tpd)) (filter ?P [0..<nat sd])"
    by (rule concat_map_if)
  also have "filter ?P [0..<nat sd] = [0..<emitted tls (nat tpd) (nat sd)]"
    unfolding emitted_def
    by (rule filter_downward_closed) (metis mult_Suc add_lessD1 add.commute)
  finally show ?thesis .
qed

lemma timetable_for_days_plan_of:
  "timetable_for_days syllabus delta = Inr (plan_of syllabus (max 1 delta))"
proof -
  let ?D = "max 1 delta"
  let ?tls = "topic_list_of syllabus"
  let ?sd = "study_days_of ?D"
  let ?tpd = "tpd_of (int (length ?tls)) ?sd"
  have study: "concat (map (study_entry_at ?tls ?tpd (int (length ?tls))) (py_range ?sd))
       = map (study_entry_of ?tls (nat ?tpd)) [0..<emitted ?tls (nat ?tpd) (nat ?sd)]"
  proof (cases "0 < ?sd")
    case True
    then have "1 \<le> ?tpd" by (simp add: tpd_of_def)
    then show ?thesis by (rule study_part_eq)
  next
    case False
    then show ?thesis by (simp add: py_range_def emitted_def)
  qed
  show ?thesis
    unfolding timetable_for_days_closed plan_of_def Let_def tpd_of_def [symmetric]
    using study by simp
qed

lemma create_timetable_direct_plan_of:
  "strptime end_date = Inr target \<Longrightarrow>
   create_timetable_direct today strptime syllabus end_date
     = Inr (plan_of syllabus (day_count today target))"
  by (simp add: create_timetable_direct_def timetable_for_days_plan_of day_count_def)

lemma type_study_entry_of [simp]: "type (study_entry_of tls t n) = ''study''"
  by (simp add: study_entry_of_def)

lemma type_revision_entry_at [simp]: "type (revision_entry_at sd j) = ''revision''"
  by (simp add: revision_entry_at_def)

lemma day_study_entry_of [simp]: "day (study_entry_of tls t n) = int n + 1"
  by (simp add: study_entry_of_def)

lemma day_revision_entry_at [simp]: "day (revision_entry_at sd j) = sd + j + 1"
  by (simp add: revision_entry_at_def)

lemma topics_revision_entry_at [simp]:
  "topics (revision_entry_at sd j) = TopicStr ''Revise all covered topics''"
  by (simp add: revision_entry_at_def)

lemma study_entries_plan_of:
  "study_entries (plan_of syllabus days)
   = map (study_entry_of (topic_list_of syllabus)
            (nat (tpd_of (int (length (topic_list_of syllabus))) (study_days_of days))))
       [0..<emitted (topic_list_of syllabus)
              (nat (tpd_of (int (length (topic_list_of syllabus))) (study_days_of days)))
              (nat (study_days_of days))]"
  by (simp add: study_entries_def plan_of_def Let_def filter_map comp_def)

lemma revision_entries_plan_of:
  "revision_entries (plan_of syllabus days)
   = map (revision_entry_at (study_days_of days)) (py_range (revision_days_of days))"
  by (simp add: revision_entries_def plan_of_def Let_def filter_map comp_def)

lemma plan_of_split:
  "plan_of syllabus days = study_entries (plan_of syllabus days) @ revision_entries (plan_of syllabus days)"
  unfolding study_entries_plan_of revision_entries_plan_of
  by (simp add: plan_of_def Let_def)

lemma length_py_range [simp]: "length (py_range n) = nat n"
  by (simp add: py_range_def)

lemma concat_windows:
  "concat (map (\<lambda>n. take t (drop (n * t) xs)) [0..<k]) = take (k * t) xs"
proof (induction k)
  case 0
  show ?case by simp
next
  case (Suc k)
  have "take (k * t) xs @ take t (drop (k * t) xs) = take (k * t + t) xs"
    by (simp add: take_add)
  then show ?case using Suc by (simp add: add.commute)
qed

lemma pairs_detailed_topics_of:
  "map (\<lambda>a. (subject a, topic a)) (detailed_topics_of day_plan) = day_plan"
  by (induction day_plan) (auto simp: detailed_topics_of_def)

lemma emitted_cover:
  "take (emitted xs t sd * t) xs = take (sd * t) xs"
proof (cases "emitted xs t sd = sd")
  case True
  then show ?thesis by simp
next
  case False
  let ?P = "\<lambda>n. n * t < length xs"
  let ?k = "emitted xs t sd"
  have lt: "?k < sd" using False emitted_le [of xs t sd] by simp
  have fil: "filter ?P [0..<sd] = [0..<?k]"
    unfolding emitted_def
    by (rule filter_downward_closed) (metis mult_Suc add_lessD1 add.commute)
  have "?k \<notin> set (filter ?P [0..<sd])"
    unfolding fil by simp
  then have "\<not> ?P ?k" using lt by simp
  then have a: "length xs \<le> ?k * t" by simp
  have "?k \<le> sd" using lt by simp
  then have "?k * t \<le> sd * t" by (rule mult_le_mono1)
  then have b: "length xs \<le> sd * t" using a by (rule le_trans [rotated])
  show ?thesis using a b by simp
qed

lemma scheduled_pairs_plan_of:
  "scheduled_pairs (plan_of syllabus days)
   = take (nat (study_days_of days)
           * nat (tpd_of (int (length (topic_list_of syllabus))) (study_days_of days)))
       (topic_list_of syllabus)"
proof -
  let ?tls = "topic_list_of syllabus"
  let ?t = "nat (tpd_of (int (length ?tls)) (study_days_of days))"
  let ?k = "emitted ?tls ?t (nat (study_days_of days))"
  have "scheduled_pairs (plan_of syllabus days)
        = concat (map (\<lambda>n. take ?t (drop (n * ?t) ?tls)) [0..<?k])"
    unfolding scheduled_pairs_def study_entries_plan_of
    by (simp add: comp_def study_entry_of_def pairs_detailed_topics_of)
  also have "\<dots> = take (?k * ?t) ?tls" by (rule concat_windows)
  also have "\<dots> = take (nat (study_days_of days) * ?t) ?tls" by (rule emitted_cover)
  finally show ?thesis .
qed

lemma emitted_filter:
  "filter (\<lambda>n. n * t < length xs) [0..<sd] = [0..<emitted xs t sd]"
  unfolding emitted_def
  by (rule filter_downward_closed) (metis mult_Suc add_lessD1 add.commute)

lemma emitted_window:
  assumes "n < emitted xs t sd"
  shows "n * t < length xs"
proof -
  have "n \<in> set (filter (\<lambda>n. n * t < length xs) [0..<sd])"
    unfolding emitted_filter using assms by simp
  then show ?thesis by simp
qed

lemma create_timetable_direct_InrD:
  assumes "create_timetable_direct today strptime syllabus end_date = Inr plan"
  obtains target where "strptime end_date = Inr target"
    and "plan = plan_of syllabus (day_count today target)"
proof (cases "strptime end_date")
  case (Inl e)
  then show ?thesis using assms by (simp add: create_timetable_direct_def)
next
  case (Inr target)
  then show ?thesis
    using assms that by (simp add: create_timetable_direct_plan_of)
qed

lemma day_study_part:
  "map day (map (study_entry_of tls t) [0..<k]) = map int [1..<Suc k]"
proof -
  have "map day (map (study_entry_of tls t) [0..<k]) = map (\<lambda>n. int (Suc n)) [0..<k]"
    by (simp add: comp_def add.commute)
  also have "\<dots> = map int (map Suc [0..<k])" by (simp add: comp_def)
  also have "map Suc [0..<k] = [1..<Suc k]" by (simp add: map_Suc_upt)
  finally show ?thesis .
qed

lemma day_revision_part:
  assumes "0 \<le> sd"
  shows "map day (map (revision_entry_at sd) (py_range rd))
         = map int [Suc (nat sd)..<Suc (nat sd + nat rd)]"
proof -
  have shift: "map (\<lambda>j. j + Suc (nat sd)) [0..<nat rd] = [Suc (nat sd)..<nat rd + Suc (nat sd)]"
    by (rule map_add_upt)
  have bound: "nat rd + Suc (nat sd) = Suc (nat sd + nat rd)"
    by simp
  have "map day (map (revision_entry_at sd) (py_range rd))
        = map (\<lambda>j. int (j + Suc (nat sd))) [0..<nat rd]"
    using assms by (simp add: py_range_def comp_def)
  also have "\<dots> = map int (map (\<lambda>j. j + Suc (nat sd)) [0..<nat rd])"
    by (simp add: comp_def)
  finally show ?thesis
    unfolding shift bound .
qed

lemma sorted_two_runs:
  assumes "k \<le> s"
  shows "sorted_wrt (<) (map int [1..<Suc k] @ map int [Suc s..<Suc (s + r)])"
proof -
  have "sorted_wrt (<) ([1..<Suc k] @ [Suc s..<Suc (s + r)])"
    using assms by (auto simp: sorted_wrt_append)
  then have "sorted_wrt (<) (map int ([1..<Suc k] @ [Suc s..<Suc (s + r)]))"
    by (simp only: sorted_wrt_map of_nat_less_iff)
  then show ?thesis by simp
qed

lemma two_runs_contiguous_iff:
  assumes "k \<le> s" "0 < r"
  shows "map int [1..<Suc k] @ map int [Suc s..<Suc (s + r)] = map int [1..<Suc (k + r)]
         \<longleftrightarrow> k = s"
proof
  assume "k = s"
  then have "[1..<Suc (k + r)] = [1..<Suc k] @ [Suc s..<Suc (s + r)]"
    by (metis Suc_eq_plus1 add_Suc le_add2 upt_add_eq_append)
  then show "map int [1..<Suc k] @ map int [Suc s..<Suc (s + r)] = map int [1..<Suc (k + r)]"
    by simp
next
  assume eq: "map int [1..<Suc k] @ map int [Suc s..<Suc (s + r)] = map int [1..<Suc (k + r)]"
  have "map int ([1..<Suc k] @ [Suc s..<Suc (s + r)]) = map int [1..<Suc (k + r)]"
    using eq by simp
  then have "[1..<Suc k] @ [Suc s..<Suc (s + r)] = [1..<Suc (k + r)]"
    by (rule map_injective) (simp add: inj_on_def)
  then have "last ([1..<Suc k] @ [Suc s..<Suc (s + r)]) = last [1..<Suc (k + r)]"
    by simp
  then show "k = s" using assms by simp
qed

lemma length_study_entries_plan_of:
  "length (study_entries (plan_of syllabus days))
   = emitted (topic_list_of syllabus)
       (nat (tpd_of (int (length (topic_list_of syllabus))) (study_days_of days)))
       (nat (study_days_of days))"
  by (simp add: study_entries_plan_of)

lemma day_plan_of:
  assumes "1 \<le> days"
  shows "map day (plan_of syllabus days)
         = map int [1..<Suc (length (study_entries (plan_of syllabus days)))]
           @ map int [Suc (nat (study_days_of days))
                      ..<Suc (nat (study_days_of days) + nat (revision_days_of days))]"
proof -
  have sd: "0 \<le> study_days_of days" using assms by (rule study_days_nonneg)
  have "map day (plan_of syllabus days)
        = map day (study_entries (plan_of syllabus days))
          @ map day (revision_entries (plan_of syllabus days))"
    by (subst plan_of_split) simp
  then show ?thesis
    unfolding length_study_entries_plan_of
    unfolding study_entries_plan_of revision_entries_plan_of
    by (simp only: day_study_part day_revision_part [OF sd])
qed

lemma plan_of_one:
  "plan_of syllabus 1
   = [\<lparr>day = 1, type = ''revision'', topics = TopicStr ''Revise all covered topics''\<rparr>]"
  by (simp add: plan_of_def study_days_of_def revision_days_of_def emitted_def py_range_def
      revision_entry_at_def)

lemma suggested_hours_detailed:
  "a \<in> set (detailed_topics_of day_plan) \<Longrightarrow>
   suggested_hours a = (if lower (subject a) = ''essay'' then 1 else 2)"
  by (auto simp: detailed_topics_of_def)

lemma assignments_plan_of:
  assumes "e \<in> set (plan_of syllabus days)" and "a \<in> set (assignments_of (topics e))"
  shows "\<exists>day_plan. a \<in> set (detailed_topics_of day_plan) \<and>
           set day_plan \<subseteq> set (topic_list_of syllabus)"
proof -
  have "e \<in> set (study_entries (plan_of syllabus days)) \<or>
        e \<in> set (revision_entries (plan_of syllabus days))"
    using assms(1) by (subst (asm) plan_of_split) simp
  then show ?thesis
  proof
    assume "e \<in> set (study_entries (plan_of syllabus days))"
    then obtain n t where "e = study_entry_of (topic_list_of syllabus) t n"
      unfolding study_entries_plan_of by auto
    then have "a \<in> set (detailed_topics_of (take t (drop (n * t) (topic_list_of syllabus))))"
      using assms(2) by (simp add: study_entry_of_def)
    moreover have "set (take t (drop (n * t) (topic_list_of syllabus)))
                   \<subseteq> set (topic_list_of syllabus)"
      by (meson set_take_subset set_drop_subset subset_trans)
    ultimately show ?thesis by blast
  next
    assume "e \<in> set (revision_entries (plan_of syllabus days))"
    then have "topics e = TopicStr ''Revise all covered topics''"
      unfolding revision_entries_plan_of by auto
    then show ?thesis using assms(2) by simp
  qed
qed

text \<open>
  What the comparison of line 180 decides: the subject is the word \<^verbatim>\<open>essay\<close> in
  any mix of upper and lower case.
\<close>

lemma lower_char_lower_letter:
  fixes l :: char
  assumes "97 \<le> (of_char l :: nat)" and "(of_char l :: nat) \<le> 122"
  shows "lower_char c = l \<longleftrightarrow> same_letter c l"
proof (cases "65 \<le> (of_char c :: nat) \<and> (of_char c :: nat) \<le> 90")
  case True
  then have "lower_char c = char_of ((of_char c :: nat) + 32)"
    by (simp add: lower_char_def)
  moreover have "char_of ((of_char c :: nat) + 32) = l \<longleftrightarrow> (of_char c :: nat) + 32 = of_char l"
  proof
    assume "char_of ((of_char c :: nat) + 32) = l"
    then have "(of_char l :: nat) = ((of_char c :: nat) + 32) mod 256"
      by (metis of_char_of)
    then show "(of_char c :: nat) + 32 = of_char l" using True by simp
  next
    assume "(of_char c :: nat) + 32 = of_char l"
    then show "char_of ((of_char c :: nat) + 32) = l" by simp
  qed
  ultimately show ?thesis using True assms by (auto simp: same_letter_def)
next
  case False
  then have "lower_char c = c" by (auto simp: lower_char_def)
  moreover have "c = l \<longleftrightarrow> (of_char c :: nat) = of_char l"
    by (metis char_of_char)
  ultimately show ?thesis using False assms by (auto simp: same_letter_def)
qed

lemma lower_essay_iff:
  "lower s = ''essay'' \<longleftrightarrow> list_all2 same_letter s ''essay''"
proof -
  have "lower s = ''essay'' \<longleftrightarrow> list_all2 (\<lambda>c l. lower_char c = l) s ''essay''"
    unfolding lower_def by (simp only: list_all2_eq list_all2_map1)
  also have "\<dots> \<longleftrightarrow> list_all2 same_letter s ''essay''"
    by (simp add: list_all2_Cons2 lower_char_lower_letter)
  finally show ?thesis .
qed

section \<open>Quiz scoring and the wrappers: auxiliary facts\<close>

text \<open>
  The score the loop returns is the initial score plus the number of matching answers.
\<close>

lemma score_loop_fst:
  "fst (score_loop ua iqs sc wt) = sc + int (length (filter (matches ua) iqs))"
  by (induction iqs arbitrary: sc wt) (auto simp: matches_def Let_def)

text \<open>
  The two float operations of line 296 on a score of 3 out of 5: the quotient is the
  binary64 value nearest to 0.6, which lies below 0.6, and its product with 100 rounds
  to 60 exactly.
\<close>

lemma three_fifths: "py_truediv 3 5 = Inr (5404319552844595 / 9007199254740992)"
  by code_simp

lemma sixty: "float_mul (5404319552844595 / 9007199254740992) 100 = 60"
  by code_simp

text \<open>
  The whole result on the example quiz.
\<close>

lemma example_quiz_eval:
  "display_enhanced_quiz_results (Some example_questions) example_answers
   = Inr (Some \<lparr>score = 3, total_questions = 5, percentage = 60, grade = ''B'',
                  wrong_topics = [''Geography'', ''Question 5'']\<rparr>)"
  by code_simp

text \<open>
  The same quiz answered correctly on every question, and on none: 100.0 with grade A,
  0.0 with grade C.
\<close>

lemma example_quiz_all_eval:
  "display_enhanced_quiz_results (Some example_questions) example_answers_all
   = Inr (Some \<lparr>score = 5, total_questions = 5, percentage = 100, grade = ''A'',
                  wrong_topics = []\<rparr>)"
  by code_simp

lemma example_quiz_none_eval:
  "display_enhanced_quiz_results (Some example_questions) example_answers_none
   = Inr (Some \<lparr>score = 0, total_questions = 5, percentage = 0, grade = ''C'',
                  wrong_topics = [''Calculus'', ''Arithmetic'', ''Geography'', ''Chemistry'',
                                  ''Question 5'']\<rparr>)"
  by code_simp

text \<open>The deeply nested text differs from every text of another length.\<close>

lemma deeply_nested_not_literal:
  assumes "length s \<noteq> 100000"
  shows "s \<noteq> deeply_nested" and "deeply_nested \<noteq> s"
proof -
  have "length deeply_nested = 100000" by (simp add: deeply_nested_def)
  then show "s \<noteq> deeply_nested" using assms by auto
  then show "deeply_nested \<noteq> s" by (rule not_sym)
qed

text \<open>
  The wrappers let no exception of class \<^verbatim>\<open>Exception\<close> out, whatever their
  collaborators do.
\<close>

lemma run_timetable_planner_catches:
  "run_timetable_planner get_agent json_dumps json_loads syllabus end_date = Inl e \<Longrightarrow>
   \<not> is_Exception e"
  by (auto simp: run_timetable_planner_def try_except_def
      split: sum.splits if_splits agent_output.splits)

lemma run_question_generation_agent_catches:
  "run_question_generation_agent generate_questions json_loads exam_name num_questions = Inl e \<Longrightarrow>
   \<not> is_Exception e"
  by (auto simp: run_question_generation_agent_def try_except_def
      split: sum.splits if_splits agent_output.splits)

section \<open>The partitioner: properties\<close>

text \<open>
  C1. The claim: whenever the syllabus has at least one topic, the study-day entries
  carry every flattened (subject, topic) pair exactly once. The code does something
  else: the first loop runs \<open>study_days\<close> times over windows of \<open>topics_per_day\<close>
  topics, so the study-day entries carry exactly the first
  \<open>study_days * topics_per_day\<close> pairs of the flattened list, in order, and the pairs
  beyond that prefix are left out.
\<close>

theorem scheduled_pairs_prefix:
  assumes "strptime end_date = Inr target"
  shows "\<exists>plan. create_timetable_direct today strptime syllabus end_date = Inr plan \<and>
           scheduled_pairs plan
             = take (nat (study_days_of (day_count today target))
                     * nat (tpd_of (int (length (topic_list_of syllabus)))
                              (study_days_of (day_count today target))))
                 (topic_list_of syllabus)"
  using assms by (simp add: create_timetable_direct_plan_of scheduled_pairs_plan_of)

text \<open>
  Three topics and an exam three days ahead: two study days of one topic each, and
  the third topic is in no entry.
\<close>

theorem scheduled_pairs_prefix_witness:
  "fixed_strptime ''2026-11-07'' 259200000000 ''2026-11-07'' = Inr 259200000000 \<and>
   (\<exists>plan. create_timetable_direct 0 (fixed_strptime ''2026-11-07'' 259200000000)
              [(''Math'', [''Algebra'', ''Geometry'', ''Calculus''])] ''2026-11-07'' = Inr plan \<and>
           scheduled_pairs plan = [(''Math'', ''Algebra''), (''Math'', ''Geometry'')] \<and>
           scheduled_pairs plan \<noteq> topic_list_of [(''Math'', [''Algebra'', ''Geometry'', ''Calculus''])])"
proof -
  have h: "fixed_strptime ''2026-11-07'' 259200000000 ''2026-11-07'' = Inr 259200000000"
    by (simp add: fixed_strptime_def)
  have t: "topic_list_of [(''Math'', [''Algebra'', ''Geometry'', ''Calculus''])]
           = [(''Math'', ''Algebra''), (''Math'', ''Geometry''), (''Math'', ''Calculus'')]"
    by (simp add: topic_list_of_def)
  have d: "day_count 0 259200000000 = 3"
    by (simp add: day_count_def timedelta_days_def usec_per_day_def)
  have s: "study_days_of 3 = 2"
    by (simp add: study_days_of_def revision_days_of_def)
  have p: "tpd_of 3 2 = 1"
    by (simp add: tpd_of_def)
  from scheduled_pairs_prefix [where strptime = "fixed_strptime ''2026-11-07'' 259200000000"
        and end_date = "''2026-11-07''" and target = 259200000000 and today = 0
        and syllabus = "[(''Math'', [''Algebra'', ''Geometry'', ''Calculus''])]", OF h]
  obtain plan where
    c: "create_timetable_direct 0 (fixed_strptime ''2026-11-07'' 259200000000)
          [(''Math'', [''Algebra'', ''Geometry'', ''Calculus''])] ''2026-11-07'' = Inr plan"
    and sp: "scheduled_pairs plan
          = take (nat (study_days_of (day_count 0 259200000000))
                  * nat (tpd_of (int (length (topic_list_of
                      [(''Math'', [''Algebra'', ''Geometry'', ''Calculus''])])))
                           (study_days_of (day_count 0 259200000000))))
              (topic_list_of [(''Math'', [''Algebra'', ''Geometry'', ''Calculus''])])"
    by blast
  have "scheduled_pairs plan = [(''Math'', ''Algebra''), (''Math'', ''Geometry'')]"
    unfolding sp by (simp add: t d s p)
  then show ?thesis using h c t by auto
qed

text \<open>
  C2. The claim: the day indices of the plan are exactly \<open>1, ..., k + revision_days\<close>
  for \<open>k\<close> emitted study-day entries, so that the revision days follow the last emitted
  study-day entry at once. It fails for the empty syllabus and \<open>D = 7\<close>: the only entry
  is a revision day with index 7, not 1.
\<close>

theorem day_indices_not_contiguous_counterexample:
  "create_timetable_direct 0 (fixed_strptime ''2026-11-11'' 604800000000) [] ''2026-11-11''
     = Inr [\<lparr>day = 7, type = ''revision'', topics = TopicStr ''Revise all covered topics''\<rparr>]
   \<and> \<not> contiguous_day_indices
         [\<lparr>day = 7, type = ''revision'', topics = TopicStr ''Revise all covered topics''\<rparr>]"
proof
  show "create_timetable_direct 0 (fixed_strptime ''2026-11-11'' 604800000000) [] ''2026-11-11''
     = Inr [\<lparr>day = 7, type = ''revision'', topics = TopicStr ''Revise all covered topics''\<rparr>]"
    by code_simp
  show "\<not> contiguous_day_indices
         [\<lparr>day = 7, type = ''revision'', topics = TopicStr ''Revise all covered topics''\<rparr>]"
    by (simp add: contiguous_day_indices_def)
qed

text \<open>
  C2, as the code has it. Line 186 numbers the revision days from \<open>study_days + 1\<close>,
  whatever the number of study-day entries emitted. So the indices are \<open>1, ..., k\<close>
  for the \<open>k \<le> study_days\<close> study-day entries, followed by
  \<open>study_days + 1, ..., study_days + revision_days = D\<close> for the revision days; they
  increase strictly, hence without duplicates, and they are the contiguous range
  \<open>1, ..., k + revision_days\<close> exactly when \<open>k = study_days\<close>.
\<close>

theorem day_indices_shape:
  assumes "strptime end_date = Inr target"
  shows "\<exists>plan. create_timetable_direct today strptime syllabus end_date = Inr plan \<and>
           (let k = length (study_entries plan);
                s = nat (study_days_of (day_count today target));
                r = nat (revision_days_of (day_count today target))
            in k \<le> s \<and> 0 < r \<and> int (s + r) = day_count today target \<and>
               length plan = k + r \<and>
               map day plan = map int [1..<Suc k] @ map int [Suc s..<Suc (s + r)] \<and>
               sorted_wrt (<) (map day plan) \<and> distinct (map day plan) \<and>
               (contiguous_day_indices plan \<longleftrightarrow> k = s))"
proof -
  let ?D = "day_count today target"
  let ?plan = "plan_of syllabus ?D"
  let ?k = "length (study_entries ?plan)"
  let ?s = "nat (study_days_of ?D)"
  let ?r = "nat (revision_days_of ?D)"
  have D: "1 \<le> ?D" by (rule day_count_pos)
  have k: "?k \<le> ?s" unfolding length_study_entries_plan_of by (rule emitted_le)
  have r: "0 < ?r" using revision_days_pos [of ?D] by simp
  have sum: "int (?s + ?r) = ?D"
    using study_days_nonneg [OF D] revision_days_pos [of ?D] by (simp add: study_days_of_def)
  have len: "length ?plan = ?k + ?r"
    by (subst plan_of_split) (simp add: revision_entries_plan_of)
  have idx: "map day ?plan = map int [1..<Suc ?k] @ map int [Suc ?s..<Suc (?s + ?r)]"
    by (rule day_plan_of [OF D])
  have srt: "sorted_wrt (<) (map day ?plan)"
    unfolding idx by (rule sorted_two_runs [OF k])
  have dst: "distinct (map day ?plan)"
    using srt by (simp add: strict_sorted_iff)
  have ctg: "contiguous_day_indices ?plan \<longleftrightarrow> ?k = ?s"
    unfolding contiguous_day_indices_def len idx by (rule two_runs_contiguous_iff [OF k r])
  show ?thesis
    using assms k r sum len idx srt dst ctg
    by (simp add: create_timetable_direct_plan_of Let_def)
qed

text \<open>
  The first scenario of the specification: three topics and \<open>D = 10\<close> give study days
  1 to 3 and the revision day 10.
\<close>

theorem day_indices_shape_witness:
  "fixed_strptime ''2026-11-14'' 864000000000 ''2026-11-14'' = Inr 864000000000 \<and>
   (\<exists>plan. create_timetable_direct 0 (fixed_strptime ''2026-11-14'' 864000000000)
              [(''Math'', [''Algebra'', ''Geometry'']), (''Physics'', [''Mechanics''])]
              ''2026-11-14'' = Inr plan \<and>
           length (study_entries plan) = 3 \<and>
           map day plan = [1, 2, 3, 10] \<and>
           \<not> contiguous_day_indices plan)"
proof -
  let ?P = "[\<lparr>day = 1, type = ''study'', topics = TopicList
               [\<lparr>subject = ''Math'', topic = ''Algebra'', suggested_hours = 2\<rparr>]\<rparr>,
             \<lparr>day = 2, type = ''study'', topics = TopicList
               [\<lparr>subject = ''Math'', topic = ''Geometry'', suggested_hours = 2\<rparr>]\<rparr>,
             \<lparr>day = 3, type = ''study'', topics = TopicList
               [\<lparr>subject = ''Physics'', topic = ''Mechanics'', suggested_hours = 2\<rparr>]\<rparr>,
             \<lparr>day = 10, type = ''revision'',
              topics = TopicStr ''Revise all covered topics''\<rparr>]"
  have h: "fixed_strptime ''2026-11-14'' 864000000000 ''2026-11-14'' = Inr 864000000000"
    by (simp add: fixed_strptime_def)
  have e: "create_timetable_direct 0 (fixed_strptime ''2026-11-14'' 864000000000)
              [(''Math'', [''Algebra'', ''Geometry'']), (''Physics'', [''Mechanics''])]
              ''2026-11-14'' = Inr ?P"
    by code_simp
  have d: "day_count 0 864000000000 = 10"
    by (simp add: day_count_def timedelta_days_def usec_per_day_def)
  have s: "nat (study_days_of 10) = 9"
    by (simp add: study_days_of_def revision_days_of_def)
  have k: "length (study_entries ?P) = 3"
    by (simp add: study_entries_def)
  from day_indices_shape [where strptime = "fixed_strptime ''2026-11-14'' 864000000000"
        and end_date = "''2026-11-14''" and target = 864000000000 and today = 0
        and syllabus = "[(''Math'', [''Algebra'', ''Geometry'']), (''Physics'', [''Mechanics''])]",
        OF h]
  have "contiguous_day_indices ?P \<longleftrightarrow> length (study_entries ?P) = nat (study_days_of 10)"
    unfolding e d by (simp add: Let_def)
  then have "\<not> contiguous_day_indices ?P"
    unfolding k s by simp
  then show ?thesis using h e k by simp
qed

text \<open>
  C3. Once the end date has parsed, the partitioner raises nothing, whatever the
  syllabus and whether the date is in the future, today or in the past: the day count
  is at least 1 and the result is a plan. In particular neither division raises
  \<^verbatim>\<open>ZeroDivisionError\<close>.
\<close>

theorem no_exception:
  assumes "strptime end_date = Inr target"
  shows "1 \<le> day_count today target \<and>
         (\<exists>plan. create_timetable_direct today strptime syllabus end_date = Inr plan)"
  using assms by (simp add: create_timetable_direct_plan_of day_count_pos)

text \<open>
  An empty syllabus and an end date ten days in the past.
\<close>

theorem no_exception_witness:
  "fixed_strptime ''2020-01-01'' (- 864000000000) ''2020-01-01'' = Inr (- 864000000000) \<and>
   1 \<le> day_count 0 (- 864000000000) \<and>
   (\<exists>plan. create_timetable_direct 0 (fixed_strptime ''2020-01-01'' (- 864000000000)) []
              ''2020-01-01'' = Inr plan)"
proof -
  have h: "fixed_strptime ''2020-01-01'' (- 864000000000) ''2020-01-01'' = Inr (- 864000000000)"
    by (simp add: fixed_strptime_def)
  show ?thesis
    using h no_exception [where strptime = "fixed_strptime ''2020-01-01'' (- 864000000000)"
        and end_date = "''2020-01-01''" and target = "- 864000000000" and today = 0
        and syllabus = "[]", OF h]
    by simp
qed

text \<open>
  C4. The claim: when \<open>study_days \<le> 0\<close>, \<open>topics_per_day\<close> falls back to
  \<open>total_topics\<close> and every topic is assigned to one study day, followed by the
  revision day. The code takes the fallback value without dividing, but the first loop
  ranges over \<open>range(study_days)\<close>, which is empty: the plan is the single revision
  day with index 1 and no topic is assigned, whatever the syllabus.
\<close>

theorem zero_study_days_plan:
  assumes "strptime end_date = Inr target"
    and "study_days_of (day_count today target) \<le> 0"
  shows "topics_per_day_of (int (length (topic_list_of syllabus)))
           (study_days_of (day_count today target))
         = Inr (int (length (topic_list_of syllabus))) \<and>
         create_timetable_direct today strptime syllabus end_date
         = Inr [\<lparr>day = 1, type = ''revision'', topics = TopicStr ''Revise all covered topics''\<rparr>]"
proof -
  have "day_count today target = 1"
    using assms(2) study_days_zero_iff [OF day_count_pos] by simp
  then show ?thesis
    using assms by (simp add: create_timetable_direct_plan_of plan_of_one topics_per_day_of_Inr)
qed

text \<open>
  One topic and an exam today.
\<close>

theorem zero_study_days_plan_witness:
  "fixed_strptime ''2026-11-04'' 0 ''2026-11-04'' = Inr 0 \<and>
   study_days_of (day_count 0 0) \<le> 0 \<and>
   topic_list_of [(''Math'', [''Algebra''])] = [(''Math'', ''Algebra'')] \<and>
   create_timetable_direct 0 (fixed_strptime ''2026-11-04'' 0) [(''Math'', [''Algebra''])]
     ''2026-11-04''
   = Inr [\<lparr>day = 1, type = ''revision'', topics = TopicStr ''Revise all covered topics''\<rparr>] \<and>
   scheduled_pairs
     [\<lparr>day = 1, type = ''revision'', topics = TopicStr ''Revise all covered topics''\<rparr>] = []"
proof -
  have h: "fixed_strptime ''2026-11-04'' 0 ''2026-11-04'' = Inr 0"
    by (simp add: fixed_strptime_def)
  have z: "study_days_of (day_count 0 0) \<le> 0"
    by (simp add: study_days_of_def revision_days_of_def day_count_def timedelta_days_def
        usec_per_day_def)
  show ?thesis
    using h z zero_study_days_plan [where strptime = "fixed_strptime ''2026-11-04'' 0"
        and end_date = "''2026-11-04''" and target = 0 and today = 0
        and syllabus = "[(''Math'', [''Algebra''])]", OF h z]
    by (simp add: topic_list_of_def scheduled_pairs_def study_entries_def)
qed

text \<open>
  C5. In every plan, every topic assignment of every entry has 1 suggested hour when
  its subject, lowercased, is \<^verbatim>\<open>essay\<close>, and 2 otherwise.
\<close>

theorem suggested_hours_rule:
  assumes "create_timetable_direct today strptime syllabus end_date = Inr plan"
    and "e \<in> set plan" and "a \<in> set (assignments_of (topics e))"
  shows "suggested_hours a = (if lower (subject a) = ''essay'' then 1 else 2)"
proof -
  from assms(1) obtain target where "plan = plan_of syllabus (day_count today target)"
    by (rule create_timetable_direct_InrD)
  then obtain day_plan where "a \<in> set (detailed_topics_of day_plan)"
    using assignments_plan_of assms(2,3) by blast
  then show ?thesis by (rule suggested_hours_detailed)
qed

text \<open>
  The third scenario of the specification, with a second subject.
\<close>

theorem suggested_hours_rule_witness:
  "create_timetable_direct 0 (fixed_strptime ''2026-11-14'' 864000000000)
     [(''Essay'', [''Part A'']), (''Math'', [''Algebra''])] ''2026-11-14''
   = Inr [\<lparr>day = 1, type = ''study'', topics = TopicList
            [\<lparr>subject = ''Essay'', topic = ''Part A'', suggested_hours = 1\<rparr>]\<rparr>,
          \<lparr>day = 2, type = ''study'', topics = TopicList
            [\<lparr>subject = ''Math'', topic = ''Algebra'', suggested_hours = 2\<rparr>]\<rparr>,
          \<lparr>day = 10, type = ''revision'', topics = TopicStr ''Revise all covered topics''\<rparr>] \<and>
   lower ''Essay'' = ''essay'' \<and>
   suggested_hours \<lparr>subject = ''Essay'', topic = ''Part A'', suggested_hours = 1\<rparr>
     = (if lower (subject \<lparr>subject = ''Essay'', topic = ''Part A'', suggested_hours = 1\<rparr>)
           = ''essay'' then 1 else 2)"
proof -
  let ?a = "\<lparr>subject = ''Essay'', topic = ''Part A'', suggested_hours = 1\<rparr>"
  let ?e = "\<lparr>day = 1, type = ''study'', topics = TopicList [?a]\<rparr>"
  let ?P = "[?e,
          \<lparr>day = 2, type = ''study'', topics = TopicList
            [\<lparr>subject = ''Math'', topic = ''Algebra'', suggested_hours = 2\<rparr>]\<rparr>,
          \<lparr>day = 10, type = ''revision'', topics = TopicStr ''Revise all covered topics''\<rparr>]"
  have c: "create_timetable_direct 0 (fixed_strptime ''2026-11-14'' 864000000000)
     [(''Essay'', [''Part A'']), (''Math'', [''Algebra''])] ''2026-11-14'' = Inr ?P"
    by code_simp
  have l: "lower ''Essay'' = ''essay''"
    by code_simp
  have e: "?e \<in> set ?P" by simp
  have a: "?a \<in> set (assignments_of (topics ?e))" by simp
  show ?thesis
    using c l suggested_hours_rule [OF c e a] by simp
qed

text \<open>
  C6. The plan has exactly \<open>max 1 (D div 7)\<close> revision-day entries, hence at least
  one, and each carries the label \<^verbatim>\<open>Revise all covered topics\<close>.
\<close>

theorem revision_day_count:
  assumes "strptime end_date = Inr target"
  shows "\<exists>plan. create_timetable_direct today strptime syllabus end_date = Inr plan \<and>
           int (length (revision_entries plan)) = max 1 (day_count today target div 7) \<and>
           1 \<le> length (revision_entries plan) \<and>
           (\<forall>e \<in> set (revision_entries plan).
              topics e = TopicStr ''Revise all covered topics'')"
proof -
  let ?plan = "plan_of syllabus (day_count today target)"
  have "int (length (revision_entries ?plan)) = max 1 (day_count today target div 7)"
    by (simp add: revision_entries_plan_of revision_days_of_def)
  moreover from this have "1 \<le> length (revision_entries ?plan)"
    by linarith
  moreover have "\<forall>e \<in> set (revision_entries ?plan).
                   topics e = TopicStr ''Revise all covered topics''"
    by (auto simp: revision_entries_plan_of)
  ultimately show ?thesis
    using assms by (simp add: create_timetable_direct_plan_of)
qed

text \<open>
  Three weeks ahead: three revision days.
\<close>

theorem revision_day_count_witness:
  "fixed_strptime ''2026-11-25'' 1814400000000 ''2026-11-25'' = Inr 1814400000000 \<and>
   day_count 0 1814400000000 = 21 \<and>
   (\<exists>plan. create_timetable_direct 0 (fixed_strptime ''2026-11-25'' 1814400000000)
              [(''Math'', [''Algebra''])] ''2026-11-25'' = Inr plan \<and>
           length (revision_entries plan) = 3 \<and>
           (\<forall>e \<in> set (revision_entries plan).
              topics e = TopicStr ''Revise all covered topics''))"
proof -
  have h: "fixed_strptime ''2026-11-25'' 1814400000000 ''2026-11-25'' = Inr 1814400000000"
    by (simp add: fixed_strptime_def)
  have d: "day_count 0 1814400000000 = 21"
    by (simp add: day_count_def timedelta_days_def usec_per_day_def)
  show ?thesis
    using h d revision_day_count [where strptime = "fixed_strptime ''2026-11-25'' 1814400000000"
        and end_date = "''2026-11-25''" and target = 1814400000000 and today = 0
        and syllabus = "[(''Math'', [''Algebra''])]", OF h]
    by auto
qed

text \<open>
  C9. The plan is a function of the syllabus and of the day count \<open>D\<close> alone: two
  calls on the same syllabus whose dates give the same \<open>D\<close> return the same plan. Two
  calls with the same syllabus, the same end date and the same value of today are the
  special case of equal arguments.
\<close>

theorem plan_depends_on_day_count_only:
  assumes "strptime end_date = Inr target"
    and "strptime' end_date' = Inr target'"
    and "day_count today target = day_count today' target'"
  shows "create_timetable_direct today strptime syllabus end_date
         = create_timetable_direct today' strptime' syllabus end_date'"
  using assms by (simp add: create_timetable_direct_plan_of)

text \<open>
  Two calls whose clock readings differ by an hour and whose end dates differ by a
  day, each ten whole days before its end date.
\<close>

theorem plan_depends_on_day_count_only_witness:
  "fixed_strptime ''2026-11-14'' 864000000000 ''2026-11-14'' = Inr 864000000000 \<and>
   fixed_strptime ''2026-11-15'' 950400000000 ''2026-11-15'' = Inr 950400000000 \<and>
   day_count 0 864000000000 = day_count 3600000000 950400000000 \<and>
   create_timetable_direct 0 (fixed_strptime ''2026-11-14'' 864000000000)
     [(''Math'', [''Algebra''])] ''2026-11-14''
   = create_timetable_direct 3600000000 (fixed_strptime ''2026-11-15'' 950400000000)
     [(''Math'', [''Algebra''])] ''2026-11-15''"
proof -
  have h: "fixed_strptime ''2026-11-14'' 864000000000 ''2026-11-14'' = Inr 864000000000"
    by (simp add: fixed_strptime_def)
  have h': "fixed_strptime ''2026-11-15'' 950400000000 ''2026-11-15'' = Inr 950400000000"
    by (simp add: fixed_strptime_def)
  have d: "day_count 0 864000000000 = day_count 3600000000 950400000000"
    by (simp add: day_count_def timedelta_days_def usec_per_day_def)
  show ?thesis
    using h h' d plan_depends_on_day_count_only
      [where strptime = "fixed_strptime ''2026-11-14'' 864000000000"
        and strptime' = "fixed_strptime ''2026-11-15'' 950400000000"
        and end_date = "''2026-11-14''" and end_date' = "''2026-11-15''"
        and target = 864000000000 and target' = 950400000000
        and today = 0 and today' = 3600000000
        and syllabus = "[(''Math'', [''Algebra''])]", OF h h' d]
    by simp
qed

text \<open>
  C10. In every plan: each study entry has a non-empty list of assignments, each
  revision entry has the fixed label, the plan is its study entries followed by its
  revision entries, and the day indices increase strictly along the list.
\<close>

theorem plan_invariant:
  assumes "create_timetable_direct today strptime syllabus end_date = Inr plan"
  shows "(\<forall>e \<in> set (study_entries plan). \<exists>as. topics e = TopicList as \<and> as \<noteq> []) \<and>
         (\<forall>e \<in> set (revision_entries plan). topics e = TopicStr ''Revise all covered topics'') \<and>
         plan = study_entries plan @ revision_entries plan \<and>
         sorted_wrt (<) (map day plan)"
proof -
  from assms obtain target where p: "plan = plan_of syllabus (day_count today target)"
    by (rule create_timetable_direct_InrD)
  let ?D = "day_count today target"
  let ?tls = "topic_list_of syllabus"
  let ?t = "nat (tpd_of (int (length ?tls)) (study_days_of ?D))"
  let ?s = "nat (study_days_of ?D)"
  have D: "1 \<le> ?D" by (rule day_count_pos)
  have study: "\<exists>as. topics e = TopicList as \<and> as \<noteq> []"
    if "e \<in> set (study_entries plan)" for e
  proof -
    from that obtain n where n: "n < emitted ?tls ?t ?s"
      and e: "e = study_entry_of ?tls ?t n"
      unfolding p study_entries_plan_of by auto
    have w: "n * ?t < length ?tls" using n by (rule emitted_window)
    have "0 < ?s" using n emitted_le [of ?tls ?t ?s] by simp
    then have "0 < ?t" by (simp add: tpd_of_def)
    then have "take ?t (drop (n * ?t) ?tls) \<noteq> []" using w by simp
    then have "detailed_topics_of (take ?t (drop (n * ?t) ?tls)) \<noteq> []"
      by (simp add: detailed_topics_of_def)
    then show ?thesis unfolding e by (simp add: study_entry_of_def)
  qed
  have rev: "\<forall>e \<in> set (revision_entries plan). topics e = TopicStr ''Revise all covered topics''"
    unfolding p by (auto simp: revision_entries_plan_of)
  have split: "plan = study_entries plan @ revision_entries plan"
    unfolding p by (rule plan_of_split)
  have "length (study_entries plan) \<le> ?s"
    unfolding p length_study_entries_plan_of by (rule emitted_le)
  then have "sorted_wrt (<) (map day plan)"
    unfolding p day_plan_of [OF D] by (rule sorted_two_runs)
  then show ?thesis using study rev split by blast
qed

text \<open>
  The first scenario of the specification.
\<close>

theorem plan_invariant_witness:
  "create_timetable_direct 0 (fixed_strptime ''2026-11-14'' 864000000000)
     [(''Math'', [''Algebra'', ''Geometry'']), (''Physics'', [''Mechanics''])] ''2026-11-14''
   = Inr [\<lparr>day = 1, type = ''study'', topics = TopicList
            [\<lparr>subject = ''Math'', topic = ''Algebra'', suggested_hours = 2\<rparr>]\<rparr>,
          \<lparr>day = 2, type = ''study'', topics = TopicList
            [\<lparr>subject = ''Math'', topic = ''Geometry'', suggested_hours = 2\<rparr>]\<rparr>,
          \<lparr>day = 3, type = ''study'', topics = TopicList
            [\<lparr>subject = ''Physics'', topic = ''Mechanics'', suggested_hours = 2\<rparr>]\<rparr>,
          \<lparr>day = 10, type = ''revision'', topics = TopicStr ''Revise all covered topics''\<rparr>] \<and>
   sorted_wrt (<) [1, 2, 3, 10 :: int]"
proof -
  let ?P = "[\<lparr>day = 1, type = ''study'', topics = TopicList
            [\<lparr>subject = ''Math'', topic = ''Algebra'', suggested_hours = 2\<rparr>]\<rparr>,
          \<lparr>day = 2, type = ''study'', topics = TopicList
            [\<lparr>subject = ''Math'', topic = ''Geometry'', suggested_hours = 2\<rparr>]\<rparr>,
          \<lparr>day = 3, type = ''study'', topics = TopicList
            [\<lparr>subject = ''Physics'', topic = ''Mechanics'', suggested_hours = 2\<rparr>]\<rparr>,
          \<lparr>day = 10, type = ''revision'', topics = TopicStr ''Revise all covered topics''\<rparr>]"
  have c: "create_timetable_direct 0 (fixed_strptime ''2026-11-14'' 864000000000)
     [(''Math'', [''Algebra'', ''Geometry'']), (''Physics'', [''Mechanics''])] ''2026-11-14''
     = Inr ?P"
    by code_simp
  from plan_invariant [OF c] have "sorted_wrt (<) (map day ?P)" by blast
  then show ?thesis using c by simp
qed

section \<open>Quiz scoring and the wrappers: properties\<close>

text \<open>
  C7. For every non-empty quiz the scoring returns a result whose score is the number
  of questions on which the user's answer equals the \<^verbatim>\<open>answer\<close> field, whose
  percentage is the float \<^verbatim>\<open>(score / total_questions) * 100\<close>, and whose grade is A
  when the percentage is at least 80, B when it is at least 60 and below 80, and C
  otherwise. In particular, for five questions answered correctly on exactly three,
  the percentage is 60.0 and the grade is B.
\<close>

theorem quiz_three_of_five:
  assumes "questions \<noteq> []"
  shows "\<exists>r. display_enhanced_quiz_results (Some questions) user_answers = Inr (Some r) \<and>
           score r = int (length (filter (matches user_answers) (enumerate 0 questions))) \<and>
           total_questions r = int (length questions) \<and>
           percentage r
             = float_mul (round_double (of_int (score r) / of_int (total_questions r))) 100 \<and>
           (grade r = ''A'' \<longleftrightarrow> 80 \<le> percentage r) \<and>
           (grade r = ''B'' \<longleftrightarrow> 60 \<le> percentage r \<and> percentage r < 80) \<and>
           (grade r = ''C'' \<longleftrightarrow> percentage r < 60) \<and>
           (length questions = 5 \<and> score r = 3 \<longrightarrow> percentage r = 60 \<and> grade r = ''B'')"
proof -
  obtain sc wt where sl: "score_loop user_answers (enumerate 0 questions) 0 [] = (sc, wt)"
    by (cases "score_loop user_answers (enumerate 0 questions) 0 []")
  let ?n = "int (length questions)"
  let ?p = "float_mul (round_double (of_int sc / of_int ?n)) 100"
  let ?r = "\<lparr>score = sc, total_questions = ?n, percentage = ?p, grade = grade_of ?p,
             wrong_topics = wt\<rparr>"
  have n: "?n \<noteq> 0" using assms by simp
  have sc: "sc = int (length (filter (matches user_answers) (enumerate 0 questions)))"
    using score_loop_fst [of user_answers "enumerate 0 questions" 0 "[]"] sl by simp
  have res: "display_enhanced_quiz_results (Some questions) user_answers = Inr (Some ?r)"
    using assms n sl
    by (simp add: display_enhanced_quiz_results_def option_get_def py_truediv_def Let_def)
  have a: "grade_of ?p = ''A'' \<longleftrightarrow> 80 \<le> ?p"
    by (simp add: grade_of_def)
  have b: "grade_of ?p = ''B'' \<longleftrightarrow> 60 \<le> ?p \<and> ?p < 80"
    by (auto simp: grade_of_def)
  have c: "grade_of ?p = ''C'' \<longleftrightarrow> ?p < 60"
    by (auto simp: grade_of_def)
  have three: "?p = 60 \<and> grade_of ?p = ''B''" if "length questions = 5" and "sc = 3"
  proof -
    have "round_double (of_int sc / of_int ?n) = 5404319552844595 / 9007199254740992"
      using three_fifths that by (simp add: py_truediv_def)
    then have "?p = float_mul (5404319552844595 / 9007199254740992) 100"
      by (rule arg_cong)
    then have "?p = 60" by (simp only: sixty)
    then show ?thesis by (simp add: grade_of_def)
  qed
  show ?thesis
  proof (intro exI [of _ ?r] conjI)
    show "display_enhanced_quiz_results (Some questions) user_answers = Inr (Some ?r)"
      by (rule res)
    show "score ?r = int (length (filter (matches user_answers) (enumerate 0 questions)))"
      using sc by simp
    show "total_questions ?r = ?n"
      by simp
    show "percentage ?r
          = float_mul (round_double (of_int (score ?r) / of_int (total_questions ?r))) 100"
      by simp
    show "grade ?r = ''A'' \<longleftrightarrow> 80 \<le> percentage ?r"
      using a by simp
    show "grade ?r = ''B'' \<longleftrightarrow> 60 \<le> percentage ?r \<and> percentage ?r < 80"
      using b by simp
    show "grade ?r = ''C'' \<longleftrightarrow> percentage ?r < 60"
      using c by simp
    show "length questions = 5 \<and> score ?r = 3 \<longrightarrow> percentage ?r = 60 \<and> grade ?r = ''B''"
    proof (intro impI, elim conjE)
      assume five: "length questions = 5" and "score ?r = 3"
      then have "sc = 3" by simp
      with five have "?p = 60 \<and> grade_of ?p = ''B''" by (rule three)
      then show "percentage ?r = 60 \<and> grade ?r = ''B''" by (simp add: grade_of_def)
    qed
  qed
qed

text \<open>
  The example quiz, answered correctly on three questions of five.
\<close>

theorem quiz_three_of_five_witness:
  "example_questions \<noteq> [] \<and> length example_questions = 5 \<and>
   length (filter (matches example_answers) (enumerate 0 example_questions)) = 3 \<and>
   (\<exists>r. display_enhanced_quiz_results (Some example_questions) example_answers = Inr (Some r) \<and>
        score r = 3 \<and> total_questions r = 5 \<and> percentage r = 60 \<and> grade r = ''B'')"
proof -
  have l: "length example_questions = 5"
    by (simp add: example_questions_def)
  have ne: "example_questions \<noteq> []"
    using l by auto
  have m: "length (filter (matches example_answers) (enumerate 0 example_questions)) = 3"
    by code_simp
  from quiz_three_of_five [OF ne, of example_answers]
  obtain r where
    "display_enhanced_quiz_results (Some example_questions) example_answers = Inr (Some r)"
    and "score r = int (length (filter (matches example_answers) (enumerate 0 example_questions)))"
    and "total_questions r = int (length example_questions)"
    and "length example_questions = 5 \<and> score r = 3 \<longrightarrow> percentage r = 60 \<and> grade r = ''B''"
    by blast
  then show ?thesis using l ne m by auto
qed

text \<open>
  C8, as stated: whenever the response is not valid JSON, \<open>run_timetable_planner\<close>
  returns the raw text. It fails on a text of 100000 opening brackets: the parser
  raises \<^verbatim>\<open>RecursionError\<close>, which the handler of line 212 does not name, and the
  handler of line 215 returns the empty list.
\<close>

theorem raw_text_fallback_counterexample:
  "example_json_loads deeply_nested = Inl RecursionError \<and>
   run_timetable_planner (Inr (example_agent_run deeply_nested)) example_json_dumps
     example_json_loads [] ''2026-11-14''
     = (Inr EmptyList :: py_exception + (unit, unit) wrapper_value) \<and>
   (Inr EmptyList :: py_exception + (unit, unit) wrapper_value) \<noteq> Inr (Raw deeply_nested)"
proof -
  have h: "example_json_loads deeply_nested = Inl RecursionError"
    by (simp add: example_json_loads_def deeply_nested_not_literal)
  show ?thesis
    using h
    by (simp add: run_timetable_planner_def try_except_def example_agent_run_def
        example_json_dumps_def)
qed

text \<open>
  C8, as the code has it. When \<^verbatim>\<open>json.loads\<close> raises \<^verbatim>\<open>JSONDecodeError\<close> on the text
  handed to it, \<open>run_timetable_planner\<close> returns that text unchanged; when it raises
  another \<^verbatim>\<open>Exception\<close>, \<open>run_timetable_planner\<close> returns the empty list.
  \<open>run_question_generation_agent\<close> returns \<^verbatim>\<open>None\<close> whenever the parse raises an
  \<^verbatim>\<open>Exception\<close>, and also when the tool call of line 223 itself raises one. Neither
  wrapper lets the exception reach its caller.
\<close>

theorem parse_error_recovered:
  assumes "json_loads response = Inl e" and "is_Exception e"
    and "get_timetable_planner_agent = Inr agent_run"
    and "json_dumps syllabus = Inr syllabus_json"
    and "agent_run (timetable_prompt syllabus_json end_date) = Inr (OutStr response)"
    and "generate_questions exam_name num_questions = Inr (OutStr response) \<or>
         (\<exists>e'. generate_questions exam_name num_questions = Inl e' \<and> is_Exception e')"
  shows "run_timetable_planner get_timetable_planner_agent json_dumps json_loads syllabus end_date
           = Inr (if e = JSONDecodeError then Raw response else EmptyList) \<and>
         run_question_generation_agent generate_questions json_loads exam_name num_questions
           = Inr PyNone"
proof
  show "run_timetable_planner get_timetable_planner_agent json_dumps json_loads syllabus end_date
           = Inr (if e = JSONDecodeError then Raw response else EmptyList)"
    using assms(1-5) by (simp add: run_timetable_planner_def try_except_def)
  show "run_question_generation_agent generate_questions json_loads exam_name num_questions
           = Inr PyNone"
    using assms(1,2,6) by (auto simp: run_question_generation_agent_def try_except_def)
qed

text \<open>
  A reply in plain prose handed to both wrappers, and a reply of 100000 opening
  brackets to the planner together with a tool call that raises.
\<close>

theorem parse_error_recovered_witness:
  "example_json_loads ''Sorry, no plan today.'' = Inl JSONDecodeError \<and>
   example_json_loads deeply_nested = Inl RecursionError \<and>
   is_Exception JSONDecodeError \<and> is_Exception RecursionError \<and>
   example_json_dumps [] = Inr ''{}'' \<and>
   run_timetable_planner (Inr (example_agent_run ''Sorry, no plan today.'')) example_json_dumps
     example_json_loads [] ''2026-11-14'' = Inr (Raw ''Sorry, no plan today.'') \<and>
   run_question_generation_agent (example_generate_questions ''Sorry, no plan today.'')
     example_json_loads ''JEE'' 5 = Inr PyNone \<and>
   run_timetable_planner (Inr (example_agent_run deeply_nested)) example_json_dumps
     example_json_loads [] ''2026-11-14'' = Inr EmptyList \<and>
   run_question_generation_agent failing_generate_questions example_json_loads ''JEE'' 5
     = Inr PyNone"
proof -
  let ?prose = "''Sorry, no plan today.''"
  have h: "example_json_loads ?prose = Inl JSONDecodeError"
    by (simp add: example_json_loads_def deeply_nested_not_literal)
  have h': "example_json_loads deeply_nested = Inl RecursionError"
    by (simp add: example_json_loads_def deeply_nested_not_literal)
  have x: "is_Exception JSONDecodeError" by simp
  have x': "is_Exception RecursionError" by simp
  have a: "(Inr (example_agent_run ?prose)
             :: py_exception + (string \<Rightarrow> py_exception + unit agent_output))
           = Inr (example_agent_run ?prose)" ..
  have a': "(Inr (example_agent_run deeply_nested)
             :: py_exception + (string \<Rightarrow> py_exception + unit agent_output))
           = Inr (example_agent_run deeply_nested)" ..
  have d: "example_json_dumps [] = Inr ''{}''"
    by (simp add: example_json_dumps_def)
  have r: "example_agent_run ?prose (timetable_prompt ''{}'' ''2026-11-14'') = Inr (OutStr ?prose)"
    by (simp add: example_agent_run_def)
  have r': "example_agent_run deeply_nested (timetable_prompt ''{}'' ''2026-11-14'')
            = Inr (OutStr deeply_nested)"
    by (simp add: example_agent_run_def)
  have g: "example_generate_questions ?prose ''JEE'' 5 = Inr (OutStr ?prose) \<or>
           (\<exists>e'. example_generate_questions ?prose ''JEE'' 5 = Inl e' \<and> is_Exception e')"
    by (simp add: example_generate_questions_def)
  have g': "failing_generate_questions ''JEE'' 5 = Inr (OutStr deeply_nested) \<or>
            (\<exists>e'. failing_generate_questions ''JEE'' 5 = Inl e' \<and> is_Exception e')"
    by (simp add: failing_generate_questions_def)
  note first = parse_error_recovered
      [where json_loads = example_json_loads and response = ?prose and e = JSONDecodeError
        and get_timetable_planner_agent = "Inr (example_agent_run ?prose)"
        and agent_run = "example_agent_run ?prose" and json_dumps = example_json_dumps
        and syllabus = "[]" and syllabus_json = "''{}''" and end_date = "''2026-11-14''"
        and generate_questions = "example_generate_questions ?prose" and exam_name = "''JEE''"
        and num_questions = 5, OF h x a d r g]
  note second = parse_error_recovered
      [where json_loads = example_json_loads and response = deeply_nested and e = RecursionError
        and get_timetable_planner_agent = "Inr (example_agent_run deeply_nested)"
        and agent_run = "example_agent_run deeply_nested" and json_dumps = example_json_dumps
        and syllabus = "[]" and syllabus_json = "''{}''" and end_date = "''2026-11-14''"
        and generate_questions = failing_generate_questions and exam_name = "''JEE''"
        and num_questions = 5, OF h' x' a' d r' g']
  show ?thesis
    using h h' d first second by simp
qed

end
